theory Spec2Isabelle
  imports Complex_Main "HOL-Library.AList" "HOL-Library.Sublist"
begin

section \<open>Credit ledger and image-generation jobs of the API server\<close>

text \<open>
  The server keeps three collections that matter here: users (with a \<open>credits\<close>
  counter), jobs (with a \<open>status\<close>) and transactions (the ledger). Every route
  handler is embedded as a function from the store it reads to the list of
  writes it awaits, in the order of the source, together with its response.
  Each \<open>await x.save()\<close> and each \<open>await Transaction.create(...)\<close> is
  one write. Persistence itself is taken to succeed. Request fields have the
  types the handlers expect, apart from the prompt of a submission, which may
  be a number as well as a string. JavaScript numbers are
  integers here (exact below \<open>2^53\<close>), apart from prices, which are
  kept as the decimal fractions the source writes. \<open>createdAt\<close> stamps
  are left out.
\<close>

subsection \<open>Documents\<close>

text \<open>
  Modelled from the spec: \<open>models/User.js\<close> is not among the sources. A user is
  an identity with a \<open>credits\<close> balance; the fields are those the register
  handler passes to \<open>new User\<close>. What the schema rejects is the parameter
  \<open>validate_user\<close> of the configuration below.
\<close>

record user =
  email :: string
  password :: string
  firstName :: string
  lastName :: string
  credits :: int

datatype job_status = Pending | Processing | Completed | Failed

text \<open>
  The image URL is kept structured: \<open>Picsum jobId w h\<close> is
  \<open>https://picsum.photos/seed/<jobId>/<w>/<h>\<close> and \<open>Hosted jobId t\<close> is
  \<open><baseUrl>/generated-images/image-<jobId>-<t>.png\<close>.
\<close>

datatype image_url = Picsum nat int int | Hosted nat int

record image =
  url :: image_url
  width :: int
  height :: int
  filename :: "(nat \<times> int) option"

record job_result =
  images :: "image list"
  timeTaken :: int
  result_model :: "string option"
  result_note :: "string option"

record job =
  userId :: nat
  prompt :: string
  negativePrompt :: "string option"
  model :: string
  param_width :: "int option"
  param_height :: "int option"
  status :: job_status
  result :: "job_result option"
  error_message :: "string option"

datatype transaction_type = PurchaseT | UsageT | RefundT | BonusT

datatype transaction_status = TxPending | TxCompleted | TxFailed

record transaction =
  tx_userId :: nat
  tx_type :: transaction_type
  amount :: rat
  tx_credits :: int
  description :: string
  tx_status :: transaction_status
  meta_jobId :: "nat option"
  meta_packageId :: "string option"
  meta_paymentMethod :: "string option"

subsection \<open>The store and its writes\<close>

record store =
  users :: "(nat \<times> user) list"
  jobs :: "(nat \<times> job) list"
  transactions :: "transaction list"

datatype "write" =
    SaveUser nat user
  | SaveJob nat job
  | CreateTransaction transaction

fun apply_write :: "store \<Rightarrow> write \<Rightarrow> store" where
  "apply_write db (SaveUser i u) = db\<lparr>users := AList.update i u (users db)\<rparr>"
| "apply_write db (SaveJob i j) = db\<lparr>jobs := AList.update i j (jobs db)\<rparr>"
| "apply_write db (CreateTransaction t) = db\<lparr>transactions := transactions db @ [t]\<rparr>"

definition commit :: "store \<Rightarrow> write list \<Rightarrow> store" where
  "commit db ws = foldl apply_write db ws"

text \<open>\<open>new_id\<close> stands for a fresh ObjectId: an identifier no document of the
  collection has.\<close>

fun new_id :: "(nat \<times> 'a) list \<Rightarrow> nat" where
  "new_id [] = 0"
| "new_id (kv # al) = max (Suc (fst kv)) (new_id al)"

definition findById :: "(nat \<times> 'a) list \<Rightarrow> nat \<Rightarrow> 'a option" where
  "findById al i = map_of al i"

definition findOne_email :: "(nat \<times> user) list \<Rightarrow> string \<Rightarrow> (nat \<times> user) option" where
  "findOne_email al e = find (\<lambda>kv. email (snd kv) = e) al"

subsection \<open>Responses\<close>

datatype error =
    EmailAlreadyRegistered
  | RegistrationFailed
  | UserNotFound
  | PromptRequired
  | InsufficientCredits
  | JobCreationFailed
  | InvalidPackage

record config =
  hf_configured :: bool
  validate_user :: "user \<Rightarrow> bool"

subsection \<open>POST /api/auth/register\<close>

record register_body =
  reg_email :: string
  reg_password :: string
  reg_firstName :: string
  reg_lastName :: string

definition welcome_bonus :: "nat \<Rightarrow> transaction" where
  "welcome_bonus uid =
     \<lparr>tx_userId = uid, tx_type = BonusT, amount = 0, tx_credits = 100,
      description = ''Welcome bonus credits'', tx_status = TxCompleted,
      meta_jobId = None, meta_packageId = None, meta_paymentMethod = None\<rparr>"

definition register :: "config \<Rightarrow> store \<Rightarrow> register_body \<Rightarrow> write list \<times> (error + nat)" where
  "register cfg db body =
     (case findOne_email (users db) (reg_email body) of
        Some existingUser \<Rightarrow> ([], Inl EmailAlreadyRegistered)
      | None \<Rightarrow>
          let uid = new_id (users db);
              u = \<lparr>email = reg_email body, password = reg_password body,
                   firstName = reg_firstName body, lastName = reg_lastName body,
                   credits = 100\<rparr>
          in if \<not> validate_user cfg u then ([], Inl RegistrationFailed)
             else ([SaveUser uid u, CreateTransaction (welcome_bonus uid)], Inr uid))"

subsection \<open>POST /api/images/generate\<close>

text \<open>
  \<open>express.json()\<close> hands the handler whatever JSON value the body holds
  under \<open>prompt\<close>: none, a string or a number (integers here; booleans,
  arrays and objects are left out). \<open>truthy\<close> is the negation of the test
  \<open>!prompt\<close>. The Job schema declares \<open>prompt\<close> a \<open>String\<close>, so
  a number is stored as its decimal text (\<open>cast_String\<close>).
\<close>

datatype json_prompt = Missing | Text string | Number int

definition truthy :: "json_prompt \<Rightarrow> bool" where
  "truthy p = (case p of Missing \<Rightarrow> False | Text t \<Rightarrow> t \<noteq> [] | Number n \<Rightarrow> n \<noteq> 0)"

definition digit_char :: "int \<Rightarrow> char" where
  "digit_char d = ''0123456789'' ! nat d"

fun decimal :: "int \<Rightarrow> string" where
  "decimal n = (if n < 10 then [digit_char n] else decimal (n div 10) @ [digit_char (n mod 10)])"

declare decimal.simps [simp del]

definition cast_String :: "json_prompt \<Rightarrow> string" where
  "cast_String p =
     (case p of
        Missing \<Rightarrow> []
      | Text t \<Rightarrow> t
      | Number n \<Rightarrow> if n < 0 then CHR ''-'' # decimal (- n) else decimal n)"

record generate_body =
  gen_prompt :: json_prompt
  gen_model :: "string option"
  gen_width :: "int option"
  gen_height :: "int option"
  gen_negativePrompt :: "string option"

definition usage_entry :: "nat \<Rightarrow> string \<Rightarrow> nat \<Rightarrow> transaction" where
  "usage_entry uid p jid =
     \<lparr>tx_userId = uid, tx_type = UsageT, amount = 0, tx_credits = - 1,
      description = ''Image generation: '' @ take 50 p @ ''...'', tx_status = TxCompleted,
      meta_jobId = Some jid, meta_packageId = None, meta_paymentMethod = None\<rparr>"

definition new_job :: "nat \<Rightarrow> generate_body \<Rightarrow> job" where
  "new_job uid body =
     \<lparr>userId = uid, prompt = cast_String (gen_prompt body),
      negativePrompt = gen_negativePrompt body,
      model = (case gen_model body of
                 None \<Rightarrow> ''stabilityai/stable-diffusion-xl-base-1.0''
               | Some m \<Rightarrow> if m = [] then ''stabilityai/stable-diffusion-xl-base-1.0'' else m),
      param_width = gen_width body, param_height = gen_height body,
      status = Pending, result = None, error_message = None\<rparr>"

text \<open>
  The handler runs behind \<open>authenticate\<close>, which loads \<open>req.user\<close> by the id of
  the token and answers 401 when there is none. On success the response
  carries the id of the job; the handler hands it to
  \<open>processImageGeneration\<close>, which it starts without awaiting it.
  The description of the usage entry is built with \<open>prompt.substring\<close>
  after the job and the user are saved: a prompt that is a number has no such
  method, the call throws before \<open>Transaction.create\<close> is reached, and
  the \<open>catch\<close> of the handler answers 500 with the two writes done.
\<close>

definition generate :: "store \<Rightarrow> nat \<Rightarrow> generate_body \<Rightarrow> write list \<times> (error + nat)" where
  "generate db uid body =
     (case findById (users db) uid of
        None \<Rightarrow> ([], Inl UserNotFound)
      | Some req_user \<Rightarrow>
          if \<not> truthy (gen_prompt body) then ([], Inl PromptRequired)
          else if credits req_user < 1 then ([], Inl InsufficientCredits)
          else
            let jid = new_id (jobs db);
                w1 = SaveJob jid (new_job uid body);
                w2 = SaveUser uid (req_user\<lparr>credits := credits req_user - 1\<rparr>)
            in (case gen_prompt body of
                  Text p \<Rightarrow> ([w1, w2, CreateTransaction (usage_entry uid p jid)], Inr jid)
                | _ \<Rightarrow> ([w1, w2], Inl JobCreationFailed)))"

subsection \<open>POST /api/billing/purchase\<close>

record package =
  pkg_credits :: int
  price :: rat

text \<open>
  The table \<open>packages\<close> of the purchase handler, looked up by
  \<open>packages[packageId]\<close>. The ids are strings; property names that a
  JavaScript object inherits (such as \<open>constructor\<close>) are not package ids
  and are left out.
\<close>

definition packages :: "string \<Rightarrow> package option" where
  "packages packageId =
     (if packageId = ''starter'' then Some \<lparr>pkg_credits = 50, price = 9.99\<rparr>
      else if packageId = ''pro'' then Some \<lparr>pkg_credits = 220, price = 29.99\<rparr>
      else if packageId = ''ultimate'' then Some \<lparr>pkg_credits = 600, price = 59.99\<rparr>
      else None)"

record purchase_body =
  packageId :: string
  paymentMethod :: "string option"

definition purchase_entry :: "nat \<Rightarrow> package \<Rightarrow> purchase_body \<Rightarrow> transaction" where
  "purchase_entry uid pkg body =
     \<lparr>tx_userId = uid, tx_type = PurchaseT, amount = price pkg, tx_credits = pkg_credits pkg,
      description = ''Purchased '' @ packageId body @ '' package'', tx_status = TxCompleted,
      meta_jobId = None, meta_packageId = Some (packageId body),
      meta_paymentMethod = paymentMethod body\<rparr>"

text \<open>On success the response carries \<open>newBalance\<close> and \<open>creditsAdded\<close>.\<close>

definition purchase :: "store \<Rightarrow> nat \<Rightarrow> purchase_body \<Rightarrow> write list \<times> (error + int \<times> int)" where
  "purchase db uid body =
     (case findById (users db) uid of
        None \<Rightarrow> ([], Inl UserNotFound)
      | Some req_user \<Rightarrow>
          (case packages (packageId body) of
             None \<Rightarrow> ([], Inl InvalidPackage)
           | Some pkg \<Rightarrow>
               let req_user' = req_user\<lparr>credits := credits req_user + pkg_credits pkg\<rparr>
               in ([SaveUser uid req_user', CreateTransaction (purchase_entry uid pkg body)],
                   Inr (credits req_user', pkg_credits pkg))))"

subsection \<open>processImageGeneration\<close>

type_synonym blob = "nat list"

text \<open>
  One call of \<open>hf.textToImage\<close>, raced against the 60 second timer: the call
  resolves with image data, rejects with an \<open>Error\<close> (given by its message),
  or is still unsettled when the timer rejects.
\<close>

datatype attempt_result = Resolves blob | Rejects string | Stalls

text \<open>
  What the worker meets outside the store: the provider (asked with the number
  of the attempt, the model id, the prompt and the negative prompt), the file
  system (\<open>Some msg\<close> when reading the image data or writing the file
  throws an error with that message) and the successive readings of
  \<open>Date.now()\<close>.
\<close>

record worker_env =
  textToImage :: "nat \<Rightarrow> string \<Rightarrow> string \<Rightarrow> string \<Rightarrow> attempt_result"
  writeFileSync :: "blob \<Rightarrow> string option"
  now :: "nat \<Rightarrow> int"

definition race :: "attempt_result \<Rightarrow> string + blob" where
  "race r = (case r of
               Resolves b \<Rightarrow> Inr b
             | Rejects e \<Rightarrow> Inl e
             | Stalls \<Rightarrow> Inl ''Request timeout after 60s'')"

definition select_model :: "string \<Rightarrow> string" where
  "select_model m =
     (if m = ''dalle-3'' then ''black-forest-labs/FLUX.1-schnell''
      else if m = ''midjourney'' then ''prompthero/openjourney-v4''
      else if m = ''stability-sd-3'' then ''stabilityai/stable-diffusion-2-1''
      else ''black-forest-labs/FLUX.1-schnell'')"

text \<open>
  The \<open>while (retries > 0)\<close> loop. The state is \<open>retries\<close>, \<open>modelId\<close> and
  \<open>lastError\<close>; \<open>tried\<close> records the model id of every attempt made so far.
  The result is \<open>imageBlob\<close>, \<open>lastError\<close>, the final \<open>modelId\<close> and
  the attempts.
\<close>

fun retry_loop ::
  "worker_env \<Rightarrow> job \<Rightarrow> nat \<Rightarrow> string \<Rightarrow> string option \<Rightarrow> string list
     \<Rightarrow> blob option \<times> string option \<times> string \<times> string list" where
  "retry_loop env job retries modelId lastError tried =
     (if retries > 0 then
        (case race (textToImage env (4 - retries) modelId (prompt job)
                      (case negativePrompt job of None \<Rightarrow> [] | Some n \<Rightarrow> n)) of
           Inr b \<Rightarrow> (Some b, lastError, modelId, tried @ [modelId])
         | Inl err \<Rightarrow>
             retry_loop env job (retries - 1)
               (if retries - 1 > 0 then
                  (if modelId = ''black-forest-labs/FLUX.1-schnell''
                     then ''stabilityai/stable-diffusion-2-1''
                   else if modelId = ''stabilityai/stable-diffusion-2-1''
                     then ''runwayml/stable-diffusion-v1-5''
                   else modelId)
                else modelId)
               (Some err) (tried @ [modelId]))
      else (None, lastError, modelId, tried))"

declare retry_loop.simps [simp del]

definition dimension :: "int option \<Rightarrow> int" where
  "dimension d = (case d of None \<Rightarrow> 1024 | Some n \<Rightarrow> if n = 0 then 1024 else n)"

definition placeholder_result :: "nat \<Rightarrow> job \<Rightarrow> job_result" where
  "placeholder_result jobId job =
     \<lparr>images = [\<lparr>url = Picsum jobId (dimension (param_width job)) (dimension (param_height job)),
                  width = dimension (param_width job), height = dimension (param_height job),
                  filename = None\<rparr>],
      timeTaken = 1000, result_model = None,
      result_note = Some ''Add HUGGINGFACE_API_KEY to .env for real generation''\<rparr>"

text \<open>
  The rest of the \<open>try\<close> block once the key is known to be configured: model
  choice, the retry loop, writing the file, building the result. \<open>Inl msg\<close> is
  an exception with that message, caught by the \<open>catch\<close> block.
\<close>

definition synthesize :: "worker_env \<Rightarrow> nat \<Rightarrow> job \<Rightarrow> string + job_result" where
  "synthesize env jobId job =
     (let startTime = now env 0 in
      case retry_loop env job 3 (select_model (model job)) None [] of
        (None, lastError, modelId, tried) \<Rightarrow>
          Inl (case lastError of
                 Some e \<Rightarrow> e
               | None \<Rightarrow> ''Failed to generate image after retries'')
      | (Some imageBlob, lastError, modelId, tried) \<Rightarrow>
          (case writeFileSync env imageBlob of
             Some e \<Rightarrow> Inl e
           | None \<Rightarrow>
               Inr \<lparr>images = [\<lparr>url = Hosted jobId (now env 1),
                                width = dimension (param_width job),
                                height = dimension (param_height job),
                                filename = Some (jobId, now env 1)\<rparr>],
                    timeTaken = now env 2 - startTime, result_model = Some modelId,
                    result_note = None\<rparr>))"

definition refund_entry :: "nat \<Rightarrow> nat \<Rightarrow> transaction" where
  "refund_entry uid jobId =
     \<lparr>tx_userId = uid, tx_type = RefundT, amount = 0, tx_credits = 1,
      description = ''Refund for failed generation'', tx_status = TxCompleted,
      meta_jobId = Some jobId, meta_packageId = None, meta_paymentMethod = None\<rparr>"

text \<open>The \<open>catch\<close> block, entered with the message of the exception.\<close>

definition on_failure :: "store \<Rightarrow> nat \<Rightarrow> string \<Rightarrow> write list" where
  "on_failure db jobId msg =
     (case findById (jobs db) jobId of
        None \<Rightarrow> []
      | Some job \<Rightarrow>
          let w1 = SaveJob jobId
                     (job\<lparr>status := Failed,
                          error_message :=
                            Some (if msg = [] then ''Image generation failed'' else msg)\<rparr>);
              db1 = apply_write db w1
          in (case findById (users db1) (userId job) of
                None \<Rightarrow> [w1]
              | Some u \<Rightarrow>
                  [w1,
                   SaveUser (userId job) (u\<lparr>credits := credits u + 1\<rparr>),
                   CreateTransaction (refund_entry (userId job) jobId)]))"

definition processImageGeneration :: "config \<Rightarrow> worker_env \<Rightarrow> store \<Rightarrow> nat \<Rightarrow> write list" where
  "processImageGeneration cfg env db jobId =
     (case findById (jobs db) jobId of
        None \<Rightarrow> []
      | Some job0 \<Rightarrow>
          let job = job0\<lparr>status := Processing\<rparr>;
              w1 = SaveJob jobId job;
              db1 = apply_write db w1
          in if \<not> hf_configured cfg then
               [w1, SaveJob jobId (job\<lparr>status := Completed,
                                       result := Some (placeholder_result jobId job)\<rparr>)]
             else
               (case synthesize env jobId job of
                  Inr res \<Rightarrow> [w1, SaveJob jobId (job\<lparr>status := Completed, result := Some res\<rparr>)]
                | Inl msg \<Rightarrow> w1 # on_failure db1 jobId msg))"

subsection \<open>The server as a sequence of operations\<close>

text \<open>
  The state of the running server: the store, the worker invocations that
  \<open>generate\<close> has started and that have not run yet, and the log of all writes
  so far. An operation runs to its end before the next one starts. The only
  call of \<open>processImageGeneration\<close> is the one in the submission handler,
  so a worker runs for a job id that a submission has started, once.
\<close>

record system =
  db :: store
  started :: "nat list"
  oplog :: "write list"

datatype event =
    Register register_body
  | Generate nat generate_body
  | Purchase nat purchase_body
  | Work nat worker_env

definition perform :: "system \<Rightarrow> write list \<Rightarrow> system" where
  "perform s ws = s\<lparr>db := commit (db s) ws, oplog := oplog s @ ws\<rparr>"

fun exec :: "config \<Rightarrow> system \<Rightarrow> event \<Rightarrow> system" where
  "exec cfg s (Register body) = perform s (fst (register cfg (db s) body))"
| "exec cfg s (Generate uid body) =
     (case generate (db s) uid body of
        (ws, Inl e) \<Rightarrow> perform s ws
      | (ws, Inr jid) \<Rightarrow> (perform s ws)\<lparr>started := started s @ [jid]\<rparr>)"
| "exec cfg s (Purchase uid body) = perform s (fst (purchase (db s) uid body))"
| "exec cfg s (Work jobId env) =
     (if jobId \<in> set (started s)
      then (perform s (processImageGeneration cfg env (db s) jobId))
             \<lparr>started := removeAll jobId (started s)\<rparr>
      else s)"

definition boot :: system where
  "boot = \<lparr>db = \<lparr>users = [], jobs = [], transactions = []\<rparr>, started = [], oplog = []\<rparr>"

definition run :: "config \<Rightarrow> event list \<Rightarrow> system" where
  "run cfg evs = foldl (exec cfg) boot evs"

subsection \<open>Observations\<close>

definition balance :: "store \<Rightarrow> nat \<Rightarrow> int option" where
  "balance d uid = map_option credits (findById (users d) uid)"

definition ledger_sum :: "store \<Rightarrow> nat \<Rightarrow> int" where
  "ledger_sum d uid = sum_list (map tx_credits (filter (\<lambda>t. tx_userId t = uid) (transactions d)))"

definition refunds_for :: "store \<Rightarrow> nat \<Rightarrow> transaction list" where
  "refunds_for d jobId =
     filter (\<lambda>t. tx_type t = RefundT \<and> meta_jobId t = Some jobId) (transactions d)"

fun status_writes :: "nat \<Rightarrow> write list \<Rightarrow> job_status list" where
  "status_writes jobId [] = []"
| "status_writes jobId (SaveJob i j # ws) =
     (if i = jobId then status j # status_writes jobId ws else status_writes jobId ws)"
| "status_writes jobId (w # ws) = status_writes jobId ws"

section \<open>Auxiliary definitions\<close>

subsection \<open>Attempts of the retry loop\<close>

text \<open>
  \<open>attempted_models\<close> gives the model ids of the attempts the worker makes
  for a job, in order. \<open>fallback\<close> is the step the loop applies to
  \<open>modelId\<close> after a failed attempt that leaves retries, and
  \<open>follows_chain\<close> holds of a list of attempts in which every model comes
  from the one before by that step.
\<close>

definition attempted_models :: "worker_env \<Rightarrow> job \<Rightarrow> string list" where
  "attempted_models env job =
     snd (snd (snd (retry_loop env job 3 (select_model (model job)) None [])))"

definition fallback :: "string \<Rightarrow> string" where
  "fallback a =
     (if a = ''black-forest-labs/FLUX.1-schnell'' then ''stabilityai/stable-diffusion-2-1''
      else if a = ''stabilityai/stable-diffusion-2-1'' then ''runwayml/stable-diffusion-v1-5''
      else a)"

fun follows_chain :: "string list \<Rightarrow> bool" where
  "follows_chain (a # b # ms) = (b = fallback a \<and> follows_chain (b # ms))"
| "follows_chain ms = True"

subsection \<open>The published package list\<close>

text \<open>
  The list that \<open>GET /api/billing/packages\<close> answers with.
\<close>

record listed_package =
  lp_id :: string
  lp_name :: string
  lp_credits :: int
  lp_price :: rat
  popular :: bool
  bonus :: "int option"

definition listed_packages :: "listed_package list" where
  "listed_packages =
     [\<lparr>lp_id = ''starter'', lp_name = ''Starter Pack'', lp_credits = 50, lp_price = 9.99,
       popular = False, bonus = None\<rparr>,
      \<lparr>lp_id = ''pro'', lp_name = ''Pro Pack'', lp_credits = 200, lp_price = 29.99,
       popular = True, bonus = Some 20\<rparr>,
      \<lparr>lp_id = ''ultimate'', lp_name = ''Ultimate Pack'', lp_credits = 500, lp_price = 59.99,
       popular = False, bonus = Some 100\<rparr>]"

subsection \<open>Invariants of the reachable states\<close>

text \<open>
  In a well-formed store ledger entries and jobs refer to existing users. A
  store is balanced when every balance equals the sum of the ledger of its
  user; \<open>text_prompt\<close> holds of every operation but a submission whose prompt
  is a number. The view of a job in a state of the server is its status and
  owner, whether its worker is still to run, the status values saved for it so
  far and its refund entries; \<open>ok_view\<close> lists the five views a job can
  have, the second being that of a job whose submission stopped before the
  worker was started.
\<close>

definition wf_store :: "store \<Rightarrow> bool" where
  "wf_store d \<longleftrightarrow>
     (\<forall>t \<in> set (transactions d). findById (users d) (tx_userId t) \<noteq> None)
   \<and> (\<forall>j job. findById (jobs d) j = Some job \<longrightarrow> findById (users d) (userId job) \<noteq> None)"

definition balanced :: "store \<Rightarrow> bool" where
  "balanced d \<longleftrightarrow>
     (\<forall>uid u. findById (users d) uid = Some u \<longrightarrow> credits u = ledger_sum d uid)"

fun text_prompt :: "event \<Rightarrow> bool" where
  "text_prompt (Generate uid body) = (case gen_prompt body of Number n \<Rightarrow> False | _ \<Rightarrow> True)"
| "text_prompt ev = True"

type_synonym job_view = "(job_status \<times> nat) option \<times> bool \<times> job_status list \<times> transaction list"

definition job_view :: "system \<Rightarrow> nat \<Rightarrow> job_view" where
  "job_view s j =
     (map_option (\<lambda>job. (status job, userId job)) (findById (jobs (db s)) j),
      j \<in> set (started s), status_writes j (oplog s), refunds_for (db s) j)"

definition ok_view :: "nat \<Rightarrow> job_view \<Rightarrow> bool" where
  "ok_view j v \<longleftrightarrow>
     v = (None, False, [], [])
   \<or> (\<exists>uid. v = (Some (Pending, uid), False, [Pending], [])
          \<or> v = (Some (Pending, uid), True, [Pending], [])
          \<or> v = (Some (Completed, uid), False, [Pending, Processing, Completed], [])
          \<or> v = (Some (Failed, uid), False, [Pending, Processing, Failed], [refund_entry uid j]))"

subsection \<open>Example inputs\<close>

text \<open>
  A configuration with a provider key that accepts every user, a provider that
  rejects every call, one that times out once and then delivers, and a few
  requests, one of them a submission whose prompt is the number 12345.
  \<open>orphan_store\<close> holds a job whose owner is missing;
  \<open>broke_system\<close> has one user without credits.
\<close>

definition demo_config :: config where
  "demo_config = \<lparr>hf_configured = True, validate_user = (\<lambda>u. True)\<rparr>"

definition failing_env :: worker_env where
  "failing_env = \<lparr>textToImage = (\<lambda>n m p q. Rejects ''Service unavailable''),
                  writeFileSync = (\<lambda>b. None), now = (\<lambda>n. 1000 * int n)\<rparr>"

definition working_env :: worker_env where
  "working_env = \<lparr>textToImage = (\<lambda>n m p q. if n < 2 then Stalls else Resolves [137, 80, 78, 71]),
                  writeFileSync = (\<lambda>b. None), now = (\<lambda>n. 1000 * int n)\<rparr>"

definition alice :: register_body where
  "alice = \<lparr>reg_email = ''alice@example.com'', reg_password = ''secret'',
            reg_firstName = ''Alice'', reg_lastName = ''A''\<rparr>"

definition cat_request :: generate_body where
  "cat_request = \<lparr>gen_prompt = Text ''a cat'', gen_model = Some ''midjourney'',
     gen_width = None, gen_height = None, gen_negativePrompt = None\<rparr>"

definition number_request :: generate_body where
  "number_request = \<lparr>gen_prompt = Number 12345, gen_model = None, gen_width = None,
     gen_height = None, gen_negativePrompt = None\<rparr>"

definition pro_purchase :: purchase_body where
  "pro_purchase = \<lparr>packageId = ''pro'', paymentMethod = Some ''card''\<rparr>"

definition demo_events :: "event list" where
  "demo_events = [Register alice, Generate 0 cat_request, Work 0 failing_env,
                  Generate 0 cat_request, Work 1 working_env, Purchase 0 pro_purchase]"

definition orphan_store :: store where
  "orphan_store =
     \<lparr>users = [],
      jobs = [(7, \<lparr>userId = 3, prompt = ''a dog'', negativePrompt = None, model = ''dalle-3'',
                   param_width = None, param_height = None, status = Pending, result = None,
                   error_message = None\<rparr>)],
      transactions = []\<rparr>"

definition broke_system :: system where
  "broke_system =
     \<lparr>db = \<lparr>users = [(0, \<lparr>email = ''bob@example.com'', password = ''pw'', firstName = ''Bob'',
                           lastName = ''B'', credits = 0\<rparr>)],
             jobs = [], transactions = []\<rparr>,
      started = [], oplog = []\<rparr>"

section \<open>Facts about the store\<close>

lemma new_id_greater: "(k, v) \<in> set al \<Longrightarrow> k < new_id al"
  by (induction al) auto

lemma findById_new_id: "findById al (new_id al) = None"
proof (rule ccontr)
  assume "findById al (new_id al) \<noteq> None"
  then obtain v where "map_of al (new_id al) = Some v"
    by (auto simp: findById_def)
  then have "(new_id al, v) \<in> set al"
    by (rule map_of_SomeD)
  then show False
    using new_id_greater by fastforce
qed

lemma findById_update:
  "findById (AList.update k v al) i = (if i = k then Some v else findById al i)"
  by (simp add: findById_def update_conv')

declare apply_write.simps [simp del]

lemma apply_write_sel [simp]:
  "users (apply_write d (SaveUser i u)) = AList.update i u (users d)"
  "users (apply_write d (SaveJob i j)) = users d"
  "users (apply_write d (CreateTransaction t)) = users d"
  "jobs (apply_write d (SaveUser i u)) = jobs d"
  "jobs (apply_write d (SaveJob i j)) = AList.update i j (jobs d)"
  "jobs (apply_write d (CreateTransaction t)) = jobs d"
  "transactions (apply_write d (SaveUser i u)) = transactions d"
  "transactions (apply_write d (SaveJob i j)) = transactions d"
  "transactions (apply_write d (CreateTransaction t)) = transactions d @ [t]"
  by (simp_all add: apply_write.simps)

lemma entry_fields [simp]:
  "tx_userId (welcome_bonus uid) = uid" "tx_type (welcome_bonus uid) = BonusT"
  "tx_credits (welcome_bonus uid) = 100" "amount (welcome_bonus uid) = 0"
  "tx_userId (usage_entry uid p jid) = uid" "tx_type (usage_entry uid p jid) = UsageT"
  "tx_credits (usage_entry uid p jid) = - 1" "meta_jobId (usage_entry uid p jid) = Some jid"
  "tx_userId (purchase_entry uid pkg body) = uid"
  "tx_type (purchase_entry uid pkg body) = PurchaseT"
  "tx_credits (purchase_entry uid pkg body) = pkg_credits pkg"
  "amount (purchase_entry uid pkg body) = price pkg"
  "meta_packageId (purchase_entry uid pkg body) = Some (packageId body)"
  "meta_paymentMethod (purchase_entry uid pkg body) = paymentMethod body"
  "tx_userId (refund_entry uid jid) = uid" "tx_type (refund_entry uid jid) = RefundT"
  "tx_credits (refund_entry uid jid) = 1" "meta_jobId (refund_entry uid jid) = Some jid"
  "amount (refund_entry uid jid) = 0"
  by (simp_all add: welcome_bonus_def usage_entry_def purchase_entry_def refund_entry_def)

lemma new_job_fields [simp]:
  "userId (new_job uid body) = uid" "status (new_job uid body) = Pending"
  by (simp_all add: new_job_def)

lemma commit_Nil: "commit d [] = d"
  by (simp add: commit_def)

lemma commit_Cons: "commit d (w # ws) = commit (apply_write d w) ws"
  by (simp add: commit_def)

lemma commit_append: "commit d (ws @ ws') = commit (commit d ws) ws'"
  by (simp add: commit_def)

lemma perform_sel [simp]:
  "db (perform s ws) = commit (db s) ws"
  "oplog (perform s ws) = oplog s @ ws"
  "started (perform s ws) = started s"
  by (simp_all add: perform_def)

lemma run_snoc: "run cfg (evs @ [e]) = exec cfg (run cfg evs) e"
  by (simp add: run_def)

lemma ledger_sum_SaveUser [simp]: "ledger_sum (apply_write d (SaveUser i u)) x = ledger_sum d x"
  by (simp add: ledger_sum_def)

lemma ledger_sum_SaveJob [simp]: "ledger_sum (apply_write d (SaveJob i j)) x = ledger_sum d x"
  by (simp add: ledger_sum_def)

lemma ledger_sum_CreateTransaction [simp]:
  "ledger_sum (apply_write d (CreateTransaction t)) x =
     ledger_sum d x + (if tx_userId t = x then tx_credits t else 0)"
  by (simp add: ledger_sum_def)

lemma ledger_sum_unknown_user:
  assumes "\<forall>t \<in> set (transactions d). findById (users d) (tx_userId t) \<noteq> None"
    and "findById (users d) uid = None"
  shows "ledger_sum d uid = 0"
proof -
  from assms have "filter (\<lambda>t. tx_userId t = uid) (transactions d) = []"
    by (auto simp: filter_empty_conv)
  then show ?thesis
    by (simp add: ledger_sum_def)
qed

lemma refunds_for_apply_write [simp]:
  "refunds_for (apply_write d (SaveUser i u)) j = refunds_for d j"
  "refunds_for (apply_write d (SaveJob i job)) j = refunds_for d j"
  "refunds_for (apply_write d (CreateTransaction t)) j =
     refunds_for d j @ (if tx_type t = RefundT \<and> meta_jobId t = Some j then [t] else [])"
  by (simp_all add: refunds_for_def)

lemma status_writes_append:
  "status_writes j (ws @ ws') = status_writes j ws @ status_writes j ws'"
  by (induction j ws rule: status_writes.induct) simp_all

lemma status_writes_prefix:
  "prefix ws ws' \<Longrightarrow> prefix (status_writes j ws) (status_writes j ws')"
  by (auto simp: prefix_def status_writes_append)

section \<open>The writes of each operation\<close>

lemma register_success:
  assumes "register cfg d body = (ws, Inr uid)"
  shows "uid = new_id (users d)"
    and "ws = [SaveUser uid \<lparr>email = reg_email body, password = reg_password body,
                   firstName = reg_firstName body, lastName = reg_lastName body,
                   credits = 100\<rparr>, CreateTransaction (welcome_bonus uid)]"
  using assms by (auto simp: register_def Let_def split: option.splits if_splits)

lemma register_cases:
  "(\<exists>e. register cfg d body = ([], Inl e))
 \<or> (\<exists>u. credits u = 100 \<and>
        register cfg d body =
          ([SaveUser (new_id (users d)) u, CreateTransaction (welcome_bonus (new_id (users d)))],
           Inr (new_id (users d))))"
  by (auto simp: register_def Let_def split: option.splits)

lemma generate_cases:
  "(\<exists>e. generate d uid body = ([], Inl e))
 \<or> (\<exists>u. findById (users d) uid = Some u \<and> \<not> text_prompt (Generate uid body) \<and>
        generate d uid body =
          ([SaveJob (new_id (jobs d)) (new_job uid body),
            SaveUser uid (u\<lparr>credits := credits u - 1\<rparr>)],
           Inl JobCreationFailed))
 \<or> (\<exists>u p. findById (users d) uid = Some u \<and> gen_prompt body = Text p \<and>
        generate d uid body =
          ([SaveJob (new_id (jobs d)) (new_job uid body),
            SaveUser uid (u\<lparr>credits := credits u - 1\<rparr>),
            CreateTransaction (usage_entry uid p (new_id (jobs d)))],
           Inr (new_id (jobs d))))"
  by (auto simp: generate_def Let_def truthy_def split: option.splits json_prompt.splits)

lemma purchase_cases:
  "(\<exists>e. purchase d uid body = ([], Inl e))
 \<or> (\<exists>u pkg r. findById (users d) uid = Some u \<and>
        purchase d uid body =
          ([SaveUser uid (u\<lparr>credits := credits u + pkg_credits pkg\<rparr>),
            CreateTransaction (purchase_entry uid pkg body)], Inr r))"
  by (auto simp: purchase_def Let_def split: option.splits)

lemma packages_dom:
  "packages pid \<noteq> None \<longleftrightarrow> pid \<in> lp_id ` set listed_packages"
  by (simp add: packages_def listed_packages_def)

text \<open>
  The table of the purchase handler agrees with the list that
  \<open>GET /api/billing/packages\<close> publishes: the same three ids, the same prices,
  and as credits the listed credits plus the listed bonus.
\<close>

lemma packages_listed:
  "p \<in> set listed_packages \<Longrightarrow>
     packages (lp_id p)
       = Some \<lparr>pkg_credits = lp_credits p + (case bonus p of None \<Rightarrow> 0 | Some b \<Rightarrow> b),
               price = lp_price p\<rparr>"
  by (auto simp: packages_def listed_packages_def)

subsection \<open>The retry loop\<close>

lemma follows_chain_nth:
  "follows_chain ms \<Longrightarrow> Suc i < length ms \<Longrightarrow> ms ! Suc i = fallback (ms ! i)"
proof (induction ms arbitrary: i rule: follows_chain.induct)
  case (1 a b ms)
  show ?case
  proof (cases i)
    case 0
    with "1.prems" show ?thesis by simp
  next
    case (Suc k)
    from "1.prems" have "follows_chain (b # ms)" and "Suc k < length (b # ms)"
      by (auto simp: Suc)
    then have "(b # ms) ! Suc k = fallback ((b # ms) ! k)"
      by (rule "1.IH")
    then show ?thesis
      by (simp add: Suc)
  qed
qed simp_all

lemma retry_loop_tried:
  "retry_loop env job r m le tr = (b, le', m', tr') \<Longrightarrow>
     \<exists>new. tr' = tr @ new \<and> length new \<le> r \<and> follows_chain new \<and> (new \<noteq> [] \<longrightarrow> hd new = m)"
proof (induction env job r m le tr rule: retry_loop.induct)
  case (1 env job retries modelId lastError tried)
  show ?case
  proof (cases "retries > 0")
    case False
    with "1.prems" show ?thesis
      by (simp add: retry_loop.simps)
  next
    case pos: True
    let ?att = "race (textToImage env (4 - retries) modelId (prompt job)
                      (case negativePrompt job of None \<Rightarrow> [] | Some n \<Rightarrow> n))"
    show ?thesis
    proof (cases ?att)
      case (Inr blob)
      with pos "1.prems" have "tr' = tried @ [modelId]"
        by (auto simp: retry_loop.simps)
      with pos show ?thesis by simp
    next
      case (Inl err)
      let ?m2 = "if retries - 1 > 0 then
                  (if modelId = ''black-forest-labs/FLUX.1-schnell''
                     then ''stabilityai/stable-diffusion-2-1''
                   else if modelId = ''stabilityai/stable-diffusion-2-1''
                     then ''runwayml/stable-diffusion-v1-5''
                   else modelId)
                else modelId"
      from pos Inl "1.prems"
      have rec: "retry_loop env job (retries - 1) ?m2 (Some err) (tried @ [modelId]) = (b, le', m', tr')"
        by (subst (asm) retry_loop.simps) simp
      from "1.IH" [OF pos Inl rec]
      obtain new where new: "tr' = (tried @ [modelId]) @ new" "length new \<le> retries - 1"
        "follows_chain new" "new \<noteq> [] \<longrightarrow> hd new = ?m2"
        by blast
      have "follows_chain (modelId # new)"
      proof (cases new)
        case Nil
        then show ?thesis by simp
      next
        case (Cons x xs)
        with new(2) have "retries - 1 > 0" by auto
        with Cons new(3,4) show ?thesis by (simp add: fallback_def)
      qed
      with new(1,2) pos show ?thesis
        by (intro exI [of _ "modelId # new"]) auto
    qed
  qed
qed

lemma retry_loop_all_fail:
  assumes "\<forall>n m p q b. textToImage env n m p q \<noteq> Resolves b"
  shows "\<exists>le' m' new. retry_loop env job r m le tr = (None, le', m', tr @ new)
           \<and> length new = r \<and> (r > 0 \<longrightarrow> le' \<noteq> None)"
  using assms
proof (induction env job r m le tr rule: retry_loop.induct)
  case (1 env job retries modelId lastError tried)
  show ?case
  proof (cases "retries > 0")
    case False
    then show ?thesis
      by (simp add: retry_loop.simps)
  next
    case pos: True
    let ?att = "race (textToImage env (4 - retries) modelId (prompt job)
                      (case negativePrompt job of None \<Rightarrow> [] | Some n \<Rightarrow> n))"
    from "1.prems" obtain err where Inl: "?att = Inl err"
      by (cases "textToImage env (4 - retries) modelId (prompt job)
                      (case negativePrompt job of None \<Rightarrow> [] | Some n \<Rightarrow> n)")
         (auto simp: race_def)
    let ?m2 = "if retries - 1 > 0 then
                  (if modelId = ''black-forest-labs/FLUX.1-schnell''
                     then ''stabilityai/stable-diffusion-2-1''
                   else if modelId = ''stabilityai/stable-diffusion-2-1''
                     then ''runwayml/stable-diffusion-v1-5''
                   else modelId)
                else modelId"
    have unfold: "retry_loop env job retries modelId lastError tried
                = retry_loop env job (retries - 1) ?m2 (Some err) (tried @ [modelId])"
      using pos Inl by (subst retry_loop.simps) simp
    from "1.IH" [OF pos Inl "1.prems"]
    obtain le' m' new where rec:
      "retry_loop env job (retries - 1) ?m2 (Some err) (tried @ [modelId])
         = (None, le', m', (tried @ [modelId]) @ new)"
      "length new = retries - 1" "retries - 1 > 0 \<longrightarrow> le' \<noteq> None"
      by (elim exE conjE)
    have "le' \<noteq> None"
    proof (cases "retries - 1 > 0")
      case True
      with rec(3) show ?thesis by simp
    next
      case False
      then have "retry_loop env job (retries - 1) ?m2 (Some err) (tried @ [modelId])
                   = (None, Some err, ?m2, tried @ [modelId])"
        by (simp add: retry_loop.simps)
      with rec(1) show ?thesis by simp
    qed
    with unfold rec(1,2) pos show ?thesis
      by (intro exI [of _ le'] exI [of _ m'] exI [of _ "modelId # new"]) simp
  qed
qed

lemma attempts_bounded: "length (attempted_models env job) \<le> 3"
proof -
  obtain b le m tr where
    "retry_loop env job 3 (select_model (model job)) None [] = (b, le, m, tr)"
    by (cases "retry_loop env job 3 (select_model (model job)) None []") auto
  with retry_loop_tried [OF this] show ?thesis
    by (auto simp: attempted_models_def)
qed

lemma synthesize_all_fail:
  assumes "\<forall>n m p q b. textToImage env n m p q \<noteq> Resolves b"
  shows "\<exists>msg. synthesize env j job = Inl msg"
proof -
  from retry_loop_all_fail [OF assms, of job 3 "select_model (model job)" None "[]"]
  obtain le' m' new where
    "retry_loop env job 3 (select_model (model job)) None [] = (None, le', m', [] @ new)"
    by (elim exE conjE)
  then show ?thesis
    by (simp add: synthesize_def Let_def)
qed

subsection \<open>The worker\<close>

lemma on_failure_writes:
  assumes "findById (jobs d) j = Some job"
  shows "on_failure d j msg =
           SaveJob j (job\<lparr>status := Failed,
                          error_message := Some (if msg = [] then ''Image generation failed'' else msg)\<rparr>)
           # (case findById (users d) (userId job) of
                None \<Rightarrow> []
              | Some u \<Rightarrow> [SaveUser (userId job) (u\<lparr>credits := credits u + 1\<rparr>),
                           CreateTransaction (refund_entry (userId job) j)])"
  using assms by (simp add: on_failure_def Let_def split: option.splits)

lemma worker_failure_writes:
  assumes "findById (jobs d) j = Some job0"
    and "hf_configured cfg"
    and "synthesize env j (job0\<lparr>status := Processing\<rparr>) = Inl msg"
  shows "processImageGeneration cfg env d j =
           SaveJob j (job0\<lparr>status := Processing\<rparr>)
           # SaveJob j (job0\<lparr>status := Failed,
                            error_message := Some (if msg = [] then ''Image generation failed'' else msg)\<rparr>)
           # (case findById (users d) (userId job0) of
                None \<Rightarrow> []
              | Some u \<Rightarrow> [SaveUser (userId job0) (u\<lparr>credits := credits u + 1\<rparr>),
                           CreateTransaction (refund_entry (userId job0) j)])"
proof -
  let ?d1 = "apply_write d (SaveJob j (job0\<lparr>status := Processing\<rparr>))"
  have "findById (jobs ?d1) j = Some (job0\<lparr>status := Processing\<rparr>)"
    by (simp add: findById_update)
  from on_failure_writes [OF this, of msg]
  have "on_failure ?d1 j msg =
           SaveJob j (job0\<lparr>status := Failed,
                            error_message := Some (if msg = [] then ''Image generation failed'' else msg)\<rparr>)
           # (case findById (users d) (userId job0) of
                None \<Rightarrow> []
              | Some u \<Rightarrow> [SaveUser (userId job0) (u\<lparr>credits := credits u + 1\<rparr>),
                           CreateTransaction (refund_entry (userId job0) j)])"
    by (simp cong: option.case_cong)
  with assms show ?thesis
    by (simp add: processImageGeneration_def Let_def)
qed

lemma worker_success_writes:
  assumes "findById (jobs d) j = Some job0"
    and "\<not> hf_configured cfg \<or> synthesize env j (job0\<lparr>status := Processing\<rparr>) = Inr r"
  shows "\<exists>res. processImageGeneration cfg env d j =
           [SaveJob j (job0\<lparr>status := Processing\<rparr>),
            SaveJob j (job0\<lparr>status := Completed, result := Some res\<rparr>)]"
  using assms by (auto simp: processImageGeneration_def Let_def)

lemma worker_cases:
  assumes "findById (jobs d) j = Some job0"
  shows "(\<exists>res. processImageGeneration cfg env d j =
           [SaveJob j (job0\<lparr>status := Processing\<rparr>),
            SaveJob j (job0\<lparr>status := Completed, result := Some res\<rparr>)])
       \<or> (\<exists>msg. msg \<noteq> [] \<and> processImageGeneration cfg env d j =
           SaveJob j (job0\<lparr>status := Processing\<rparr>)
           # SaveJob j (job0\<lparr>status := Failed, error_message := Some msg\<rparr>)
           # (case findById (users d) (userId job0) of
                None \<Rightarrow> []
              | Some u \<Rightarrow> [SaveUser (userId job0) (u\<lparr>credits := credits u + 1\<rparr>),
                           CreateTransaction (refund_entry (userId job0) j)]))"
proof (cases "hf_configured cfg")
  case False
  with worker_success_writes [OF assms, of cfg] show ?thesis by blast
next
  case True
  show ?thesis
  proof (cases "synthesize env j (job0\<lparr>status := Processing\<rparr>)")
    case (Inr r)
    with worker_success_writes [OF assms, of cfg env r] show ?thesis by blast
  next
    case (Inl msg)
    let ?m = "if msg = [] then ''Image generation failed'' else msg"
    have "?m \<noteq> []" by simp
    with worker_failure_writes [OF assms True Inl] show ?thesis
      by (intro disjI2 exI [of _ ?m]) simp
  qed
qed


section \<open>Reachable states\<close>

lemma wf_store_register:
  assumes "wf_store d"
  shows "wf_store (commit d (fst (register cfg d body)))"
  using register_cases [of cfg d body]
proof (elim disjE exE conjE)
  fix e assume "register cfg d body = ([], Inl e)"
  with assms show ?thesis by (simp add: commit_Nil)
next
  fix u assume u: "credits u = 100"
    and r: "register cfg d body =
          ([SaveUser (new_id (users d)) u, CreateTransaction (welcome_bonus (new_id (users d)))],
           Inr (new_id (users d)))"
  with assms show ?thesis
    by (auto simp: wf_store_def commit_Cons commit_Nil findById_update)
qed

lemma wf_store_generate:
  assumes "wf_store d"
  shows "wf_store (commit d (fst (generate d uid body)))"
  using generate_cases [of d uid body]
proof (elim disjE exE conjE)
  fix e assume "generate d uid body = ([], Inl e)"
  with assms show ?thesis by (simp add: commit_Nil)
next
  fix u assume u: "findById (users d) uid = Some u"
    and r: "generate d uid body =
          ([SaveJob (new_id (jobs d)) (new_job uid body),
            SaveUser uid (u\<lparr>credits := credits u - 1\<rparr>)],
           Inl JobCreationFailed)"
  with assms show ?thesis
    by (auto simp: wf_store_def commit_Cons commit_Nil findById_update)
next
  fix u p assume u: "findById (users d) uid = Some u"
    and r: "generate d uid body =
          ([SaveJob (new_id (jobs d)) (new_job uid body),
            SaveUser uid (u\<lparr>credits := credits u - 1\<rparr>),
            CreateTransaction (usage_entry uid p (new_id (jobs d)))],
           Inr (new_id (jobs d)))"
  with assms show ?thesis
    by (auto simp: wf_store_def commit_Cons commit_Nil findById_update)
qed

lemma wf_store_purchase:
  assumes "wf_store d"
  shows "wf_store (commit d (fst (purchase d uid body)))"
  using purchase_cases [of d uid body]
proof (elim disjE exE conjE)
  fix e assume "purchase d uid body = ([], Inl e)"
  with assms show ?thesis by (simp add: commit_Nil)
next
  fix u pkg r assume u: "findById (users d) uid = Some u"
    and r: "purchase d uid body =
          ([SaveUser uid (u\<lparr>credits := credits u + pkg_credits pkg\<rparr>),
            CreateTransaction (purchase_entry uid pkg body)], Inr r)"
  with assms show ?thesis
    by (auto simp: wf_store_def commit_Cons commit_Nil findById_update)
qed

lemma wf_store_worker:
  assumes "wf_store d"
  shows "wf_store (commit d (processImageGeneration cfg env d j))"
proof (cases "findById (jobs d) j")
  case None
  with assms show ?thesis
    by (simp add: processImageGeneration_def commit_Nil)
next
  case (Some job0)
  with assms have "findById (users d) (userId job0) \<noteq> None"
    unfolding wf_store_def by blast
  then obtain u where u: "findById (users d) (userId job0) = Some u"
    by auto
  from worker_cases [OF Some, of cfg env] show ?thesis
  proof (elim disjE exE conjE)
    fix res
    assume "processImageGeneration cfg env d j =
           [SaveJob j (job0\<lparr>status := Processing\<rparr>),
            SaveJob j (job0\<lparr>status := Completed, result := Some res\<rparr>)]"
    with assms Some show ?thesis
      by (auto simp: wf_store_def commit_Cons commit_Nil findById_update)
  next
    fix msg
    assume "processImageGeneration cfg env d j =
           SaveJob j (job0\<lparr>status := Processing\<rparr>)
           # SaveJob j (job0\<lparr>status := Failed, error_message := Some msg\<rparr>)
           # (case findById (users d) (userId job0) of
                None \<Rightarrow> []
              | Some u \<Rightarrow> [SaveUser (userId job0) (u\<lparr>credits := credits u + 1\<rparr>),
                           CreateTransaction (refund_entry (userId job0) j)])"
    with assms Some u show ?thesis
      by (auto simp: wf_store_def commit_Cons commit_Nil findById_update)
  qed
qed

lemma exec_wf_store:
  "wf_store (db s) \<Longrightarrow> wf_store (db (exec cfg s e))"
proof (cases e)
  case (Generate uid body)
  assume "wf_store (db s)"
  from wf_store_generate [OF this, of uid body] show ?thesis
    by (cases "generate (db s) uid body") (auto simp: Generate split: sum.splits)
qed (simp_all add: wf_store_register wf_store_purchase wf_store_worker)

lemma balanced_register:
  assumes "wf_store d" and "balanced d"
  shows "balanced (commit d (fst (register cfg d body)))"
  using register_cases [of cfg d body]
proof (elim disjE exE conjE)
  fix e assume "register cfg d body = ([], Inl e)"
  with assms show ?thesis by (simp add: commit_Nil)
next
  fix u assume u: "credits u = 100"
    and r: "register cfg d body =
          ([SaveUser (new_id (users d)) u, CreateTransaction (welcome_bonus (new_id (users d)))],
           Inr (new_id (users d)))"
  have fresh: "findById (users d) (new_id (users d)) = None"
    by (rule findById_new_id)
  from assms(1) have "ledger_sum d (new_id (users d)) = 0"
    by (intro ledger_sum_unknown_user fresh) (simp add: wf_store_def)
  with assms(2) u fresh show ?thesis
    by (auto simp: r balanced_def commit_Cons commit_Nil findById_update)
qed

lemma balanced_generate:
  assumes "balanced d" and "text_prompt (Generate uid body)"
  shows "balanced (commit d (fst (generate d uid body)))"
  using generate_cases [of d uid body]
proof (elim disjE exE conjE)
  fix e assume "generate d uid body = ([], Inl e)"
  with assms show ?thesis by (simp add: commit_Nil)
next
  assume "\<not> text_prompt (Generate uid body)"
  with assms(2) show ?thesis by simp
next
  fix u p assume u: "findById (users d) uid = Some u"
    and r: "generate d uid body =
          ([SaveJob (new_id (jobs d)) (new_job uid body),
            SaveUser uid (u\<lparr>credits := credits u - 1\<rparr>),
            CreateTransaction (usage_entry uid p (new_id (jobs d)))],
           Inr (new_id (jobs d)))"
  with assms(1) show ?thesis
    by (auto simp: balanced_def commit_Cons commit_Nil findById_update)
qed

lemma balanced_purchase:
  assumes "balanced d"
  shows "balanced (commit d (fst (purchase d uid body)))"
  using purchase_cases [of d uid body]
proof (elim disjE exE conjE)
  fix e assume "purchase d uid body = ([], Inl e)"
  with assms show ?thesis by (simp add: commit_Nil)
next
  fix u pkg r assume u: "findById (users d) uid = Some u"
    and r: "purchase d uid body =
          ([SaveUser uid (u\<lparr>credits := credits u + pkg_credits pkg\<rparr>),
            CreateTransaction (purchase_entry uid pkg body)], Inr r)"
  with assms show ?thesis
    by (auto simp: balanced_def commit_Cons commit_Nil findById_update)
qed

lemma balanced_worker:
  assumes "wf_store d" and "balanced d"
  shows "balanced (commit d (processImageGeneration cfg env d j))"
proof (cases "findById (jobs d) j")
  case None
  with assms show ?thesis
    by (simp add: processImageGeneration_def commit_Nil)
next
  case (Some job0)
  with assms(1) have "findById (users d) (userId job0) \<noteq> None"
    unfolding wf_store_def by blast
  then obtain u where u: "findById (users d) (userId job0) = Some u"
    by auto
  from worker_cases [OF Some, of cfg env] show ?thesis
  proof (elim disjE exE conjE)
    fix res
    assume "processImageGeneration cfg env d j =
           [SaveJob j (job0\<lparr>status := Processing\<rparr>),
            SaveJob j (job0\<lparr>status := Completed, result := Some res\<rparr>)]"
    with assms(2) show ?thesis
      by (auto simp: balanced_def commit_Cons commit_Nil findById_update)
  next
    fix msg
    assume "processImageGeneration cfg env d j =
           SaveJob j (job0\<lparr>status := Processing\<rparr>)
           # SaveJob j (job0\<lparr>status := Failed, error_message := Some msg\<rparr>)
           # (case findById (users d) (userId job0) of
                None \<Rightarrow> []
              | Some u \<Rightarrow> [SaveUser (userId job0) (u\<lparr>credits := credits u + 1\<rparr>),
                           CreateTransaction (refund_entry (userId job0) j)])"
    with assms(2) u show ?thesis
      by (auto simp: balanced_def commit_Cons commit_Nil findById_update)
  qed
qed

lemma exec_balanced:
  assumes "wf_store (db s)" and "balanced (db s)" and "text_prompt e"
  shows "balanced (db (exec cfg s e))"
proof (cases e)
  case (Generate uid body)
  from balanced_generate [OF assms(2), of uid body] assms(3) show ?thesis
    by (cases "generate (db s) uid body") (auto simp: Generate split: sum.splits)
qed (simp_all add: assms balanced_register balanced_purchase balanced_worker)

lemma job_view_register: "job_view (exec cfg s (Register body)) j = job_view s j"
  using register_cases [of cfg "db s" body]
  by (auto simp: job_view_def commit_Cons commit_Nil status_writes_append)

lemma job_view_purchase: "job_view (exec cfg s (Purchase uid body)) j = job_view s j"
  using purchase_cases [of "db s" uid body]
  by (auto simp: job_view_def commit_Cons commit_Nil status_writes_append)

lemma job_view_generate:
  "job_view (exec cfg s (Generate uid body)) j = job_view s j
 \<or> (j = new_id (jobs (db s))
    \<and> (\<exists>st. job_view (exec cfg s (Generate uid body)) j
        = (Some (Pending, uid), st, status_writes j (oplog s) @ [Pending], refunds_for (db s) j)))"
  using generate_cases [of "db s" uid body]
  by (auto simp: job_view_def commit_Cons commit_Nil status_writes_append findById_update
           split: if_splits)

lemma job_view_fresh:
  assumes "ok_view j (job_view s j)" and "j = new_id (jobs (db s))"
  shows "job_view s j = (None, False, [], [])"
proof -
  have "findById (jobs (db s)) j = None"
    unfolding assms(2) by (rule findById_new_id)
  with assms(1) show ?thesis
    by (auto simp: ok_view_def job_view_def)
qed

lemma ok_view_generate:
  assumes "ok_view j (job_view s j)"
  shows "ok_view j (job_view (exec cfg s (Generate uid body)) j)"
  using job_view_generate [of cfg s uid body j]
proof (elim disjE conjE exE)
  assume "job_view (exec cfg s (Generate uid body)) j = job_view s j"
  with assms show ?thesis by simp
next
  fix st
  assume j: "j = new_id (jobs (db s))"
    and v: "job_view (exec cfg s (Generate uid body)) j
        = (Some (Pending, uid), st, status_writes j (oplog s) @ [Pending], refunds_for (db s) j)"
  from job_view_fresh [OF assms j]
  have "status_writes j (oplog s) = []" "refunds_for (db s) j = []"
    by (simp_all add: job_view_def)
  with v show ?thesis
    by (cases st) (simp_all add: ok_view_def)
qed

lemma job_view_work_other:
  assumes "j \<noteq> k"
  shows "job_view (exec cfg s (Work k env)) j = job_view s j"
proof (cases "findById (jobs (db s)) k")
  case None
  with assms show ?thesis
    by (simp add: job_view_def processImageGeneration_def commit_Nil)
next
  case (Some job0)
  from worker_cases [OF Some, of cfg env] assms show ?thesis
    by (cases "findById (users (db s)) (userId job0)")
       (auto simp: job_view_def commit_Cons commit_Nil status_writes_append findById_update)
qed

lemma job_view_work_started:
  assumes "findById (jobs (db s)) k = Some job0"
    and "findById (users (db s)) (userId job0) = Some u"
    and "k \<in> set (started s)"
  shows "job_view (exec cfg s (Work k env)) k
           = (Some (Completed, userId job0), False,
              status_writes k (oplog s) @ [Processing, Completed], refunds_for (db s) k)
       \<or> job_view (exec cfg s (Work k env)) k
           = (Some (Failed, userId job0), False,
              status_writes k (oplog s) @ [Processing, Failed],
              refunds_for (db s) k @ [refund_entry (userId job0) k])"
  using worker_cases [OF assms(1), of cfg env] assms(2,3)
  by (auto simp: job_view_def commit_Cons commit_Nil status_writes_append findById_update)

lemma ok_view_work:
  assumes "ok_view j (job_view s j)" and "wf_store (db s)"
  shows "ok_view j (job_view (exec cfg s (Work k env)) j)"
proof (cases "j = k \<and> k \<in> set (started s)")
  case False
  then consider "j \<noteq> k" | "k \<notin> set (started s)" by blast
  then show ?thesis
  proof cases
    case 1
    from job_view_work_other [OF 1, of cfg s env] assms(1) show ?thesis by simp
  next
    case 2
    with assms(1) show ?thesis by simp
  qed
next
  case True
  then have jk: "j = k" and st: "k \<in> set (started s)" by simp_all
  from assms(1) st obtain uid job0 where
    v: "job_view s k = (Some (Pending, uid), True, [Pending], [])"
    and job0: "findById (jobs (db s)) k = Some job0" and uid: "userId job0 = uid"
    unfolding jk by (auto simp: ok_view_def job_view_def)
  from assms(2) job0 have "findById (users (db s)) (userId job0) \<noteq> None"
    unfolding wf_store_def by blast
  then obtain u where u: "findById (users (db s)) (userId job0) = Some u"
    by auto
  from v have "status_writes k (oplog s) = [Pending]" "refunds_for (db s) k = []"
    by (simp_all add: job_view_def)
  with job_view_work_started [OF job0 u st, of cfg env] uid show ?thesis
    unfolding jk by (auto simp: ok_view_def)
qed

lemma exec_ok_view:
  assumes "ok_view j (job_view s j)" and "wf_store (db s)"
  shows "ok_view j (job_view (exec cfg s e) j)"
  using assms
  by (cases e) (simp_all only: job_view_register job_view_purchase ok_view_generate ok_view_work)

lemma reachable_invariant:
  "wf_store (db (run cfg evs)) \<and> (\<forall>j. ok_view j (job_view (run cfg evs) j))"
proof (induction evs rule: rev_induct)
  case Nil
  show ?case
    by (simp add: run_def boot_def wf_store_def ok_view_def job_view_def findById_def
        refunds_for_def)
next
  case (snoc e evs)
  then show ?case
    by (simp add: run_snoc exec_wf_store exec_ok_view)
qed

lemma text_runs_balanced:
  "list_all text_prompt evs \<Longrightarrow> balanced (db (run cfg evs))"
proof (induction evs rule: rev_induct)
  case Nil
  show ?case
    by (simp add: run_def boot_def balanced_def findById_def)
next
  case (snoc e evs)
  with reachable_invariant [of cfg evs] show ?case
    by (simp add: run_snoc exec_balanced)
qed

lemma work_failed_balance:
  assumes "findById (jobs (db s)) k = Some job0"
    and "findById (users (db s)) (userId job0) = Some u"
    and "k \<in> set (started s)"
    and "map_option status (findById (jobs (db (exec cfg s (Work k env)))) k) = Some Failed"
  shows "balance (db (exec cfg s (Work k env))) (userId job0) = Some (credits u + 1)"
  using worker_cases [OF assms(1), of cfg env] assms(2,3,4)
  by (auto simp: balance_def commit_Cons commit_Nil findById_update)

section \<open>The claims\<close>

subsection \<open>Ledger and balance\<close>

text \<open>
  Claim C1 (balance conservation): after any sequence of registrations, job
  submissions, worker runs and purchases, each run to its end before the next
  starts, the stored balance of every user equals the sum of the
  \<open>credits\<close> deltas of the ledger entries of that user. The submission
  handler breaks it. Given the prompt \<open>12345\<close>, a number, by a user who has
  just registered, it saves the job and the balance 99, throws at
  \<open>prompt.substring\<close> and answers 500: no \<open>usage\<close> entry is written,
  the ledger still sums to 100, and no worker is started for the job.
\<close>

theorem number_prompt_breaks_balance:
  "snd (generate (db (run demo_config [Register alice])) 0 number_request) = Inl JobCreationFailed
   \<and> balance (db (run demo_config [Register alice])) 0 = Some 100
   \<and> ledger_sum (db (run demo_config [Register alice])) 0 = 100
   \<and> balance (db (run demo_config [Register alice, Generate 0 number_request])) 0 = Some 99
   \<and> ledger_sum (db (run demo_config [Register alice, Generate 0 number_request])) 0 = 100
   \<and> map_option prompt
        (findById (jobs (db (run demo_config [Register alice, Generate 0 number_request]))) 0)
       = Some ''12345''
   \<and> started (run demo_config [Register alice, Generate 0 number_request]) = []"
  by code_simp

text \<open>
  Every other operation keeps balance and ledger together: in a run in which
  no submission carries a number as its prompt, the balance of every user is
  the sum of the ledger of that user.
\<close>

lemma balance_conserved_text_prompts:
  assumes "list_all text_prompt evs"
    and "findById (users (db (run cfg evs))) uid = Some u"
  shows "credits u = ledger_sum (db (run cfg evs)) uid"
  using text_runs_balanced [OF assms(1), of cfg] assms(2)
  unfolding balanced_def by blast

lemma balance_conserved_example:
  "list_all text_prompt demo_events
   \<and> map_option credits (findById (users (db (run demo_config demo_events))) 0) = Some 319
   \<and> ledger_sum (db (run demo_config demo_events)) 0 = 319"
proof -
  have t: "list_all text_prompt demo_events"
    by code_simp
  have h: "findById (users (db (run demo_config demo_events))) 0
             = Some \<lparr>email = ''alice@example.com'', password = ''secret'',
                     firstName = ''Alice'', lastName = ''A'', credits = 319\<rparr>"
    by code_simp
  from balance_conserved_text_prompts [OF t h] t h show ?thesis
    by simp
qed

text \<open>
  Claim C9 (welcome bonus). A successful registration creates a user that did
  not exist, with a balance of 100, and appends exactly one ledger entry: a
  \<open>bonus\<close> of \<open>credits = 100\<close> and \<open>amount = 0\<close> for that user.
\<close>

theorem register_grants_bonus:
  assumes "register cfg d body = (ws, Inr uid)"
  shows "findById (users d) uid = None
       \<and> map_option credits (findById (users (commit d ws)) uid) = Some 100
       \<and> (\<exists>t. transactions (commit d ws) = transactions d @ [t]
              \<and> tx_userId t = uid \<and> tx_type t = BonusT \<and> tx_credits t = 100 \<and> amount t = 0)"
proof -
  note r = register_success [OF assms]
  have "findById (users d) uid = None"
    by (simp add: r(1) findById_new_id)
  moreover have "map_option credits (findById (users (commit d ws)) uid) = Some 100"
    by (simp add: r(2) commit_Cons commit_Nil findById_update)
  moreover have "transactions (commit d ws) = transactions d @ [welcome_bonus uid]"
    by (simp add: r(2) commit_Cons commit_Nil)
  ultimately show ?thesis
    by simp
qed

theorem register_grants_bonus_witness:
  "register demo_config (db boot) alice
     = ([SaveUser 0 \<lparr>email = ''alice@example.com'', password = ''secret'',
                     firstName = ''Alice'', lastName = ''A'', credits = 100\<rparr>,
         CreateTransaction (welcome_bonus 0)], Inr 0)
   \<and> map_option credits (findById (users (db (run demo_config [Register alice]))) 0) = Some 100
   \<and> map tx_credits (transactions (db (run demo_config [Register alice]))) = [100]"
proof -
  let ?ws = "[SaveUser 0 \<lparr>email = ''alice@example.com'', password = ''secret'',
                     firstName = ''Alice'', lastName = ''A'', credits = 100\<rparr>,
         CreateTransaction (welcome_bonus 0)]"
  have r: "register demo_config (db boot) alice = (?ws, Inr 0)"
    by code_simp
  have e: "db (run demo_config [Register alice]) = commit (db boot) ?ws"
    by (simp add: run_def r)
  have t: "transactions (db boot) = []"
    by (simp add: boot_def)
  from register_grants_bonus [OF r] r show ?thesis
    by (auto simp: e t)
qed



subsection \<open>Submission\<close>

text \<open>
  Claim C3 (admission guard). For an authenticated user whose balance is less
  than 1, a submission with a prompt (a non-empty string, or a number other
  than 0) is answered with \<open>InsufficientCredits\<close>, and the submission
  changes nothing: no job, no ledger entry, no write at all, no worker started.
  (With an empty or missing prompt the answer is \<open>PromptRequired\<close>, checked
  first; the state is unchanged as well.)
\<close>

theorem insufficient_credits_no_effect:
  assumes "findById (users (db s)) uid = Some u"
    and "credits u < 1"
  shows "(truthy (gen_prompt body) \<longrightarrow>
            generate (db s) uid body = ([], Inl InsufficientCredits))
       \<and> exec cfg s (Generate uid body) = s"
  using assms
  by (simp add: generate_def perform_def commit_Nil)

theorem insufficient_credits_no_effect_witness:
  "findById (users (db broke_system)) 0 \<noteq> None
   \<and> truthy (gen_prompt cat_request)
   \<and> generate (db broke_system) 0 cat_request = ([], Inl InsufficientCredits)
   \<and> exec demo_config broke_system (Generate 0 cat_request) = broke_system"
proof -
  let ?u = "\<lparr>email = ''bob@example.com'', password = ''pw'', firstName = ''Bob'',
             lastName = ''B'', credits = 0\<rparr>"
  have u: "findById (users (db broke_system)) 0 = Some ?u"
    by code_simp
  have c: "credits ?u < 1"
    by simp
  have p: "truthy (gen_prompt cat_request)"
    by (simp add: cat_request_def truthy_def)
  from insufficient_credits_no_effect [OF u c, of cat_request demo_config] p
  have "generate (db broke_system) 0 cat_request = ([], Inl InsufficientCredits)"
    and "exec demo_config broke_system (Generate 0 cat_request) = broke_system"
    by blast+
  with u p show ?thesis
    by (simp only: simp_thms option.distinct)
qed

text \<open>
  Claim C4 (order of the writes of a submission), as amended. A successful
  submission creates the \<open>pending\<close> Job record first, then saves the balance
  decremented by 1, then appends the \<open>usage\<close> entry of \<open>credits = -1\<close>
  tagged with the job id; the worker of the job is started only after these
  three writes.
\<close>

theorem submission_order:
  assumes "findById (users (db s)) uid = Some u"
    and "generate (db s) uid body = (ws, Inr jid)"
  shows "(\<exists>job u' t. ws = [SaveJob jid job, SaveUser uid u', CreateTransaction t]
           \<and> findById (jobs (db s)) jid = None
           \<and> status job = Pending \<and> userId job = uid
           \<and> credits u' = credits u - 1
           \<and> tx_type t = UsageT \<and> tx_credits t = - 1 \<and> tx_userId t = uid
           \<and> meta_jobId t = Some jid)
       \<and> db (exec cfg s (Generate uid body)) = commit (db s) ws
       \<and> started (exec cfg s (Generate uid body)) = started s @ [jid]"
proof -
  from generate_cases [of "db s" uid body] assms
  obtain p where
    ws: "ws = [SaveJob jid (new_job uid body), SaveUser uid (u\<lparr>credits := credits u - 1\<rparr>),
               CreateTransaction (usage_entry uid p jid)]"
    and jid: "jid = new_id (jobs (db s))"
    by auto
  have "findById (jobs (db s)) jid = None"
    unfolding jid by (rule findById_new_id)
  with ws assms(2) show ?thesis
    by simp
qed

theorem submission_order_witness:
  "findById (users (db (run demo_config [Register alice]))) 0 \<noteq> None
   \<and> snd (generate (db (run demo_config [Register alice])) 0 cat_request) = Inr 0
   \<and> map_option status (findById (jobs (db (run demo_config [Register alice, Generate 0 cat_request]))) 0)
       = Some Pending
   \<and> started (run demo_config [Register alice, Generate 0 cat_request]) = [0]"
proof -
  let ?s = "run demo_config [Register alice]"
  let ?u = "\<lparr>email = ''alice@example.com'', password = ''secret'',
             firstName = ''Alice'', lastName = ''A'', credits = 100\<rparr>"
  let ?ws = "[SaveJob 0 (new_job 0 cat_request), SaveUser 0 (?u\<lparr>credits := 99\<rparr>),
              CreateTransaction (usage_entry 0 ''a cat'' 0)]"
  have u: "findById (users (db ?s)) 0 = Some ?u"
    by code_simp
  have g: "generate (db ?s) 0 cat_request = (?ws, Inr 0)"
    by code_simp
  have e: "run demo_config [Register alice, Generate 0 cat_request]
             = exec demo_config ?s (Generate 0 cat_request)"
    by (simp add: run_def)
  have p: "map_option status (findById (jobs (commit (db ?s) ?ws)) 0) = Some Pending"
    by (simp add: commit_Cons commit_Nil findById_update)
  have st: "started ?s = []"
    by code_simp
  from submission_order [OF u g, of demo_config] show ?thesis
    by (simp only: e u g p st) simp
qed

text \<open>
  The order the claim C4 was first stated with does not hold: after the first
  write of a submission the Job record exists, while the balance is still 100
  and the ledger holds the welcome bonus only.
\<close>

theorem submission_order_counterexample:
  "findById (jobs (commit (db (run demo_config [Register alice]))
              (take 1 (fst (generate (db (run demo_config [Register alice])) 0 cat_request))))) 0
     \<noteq> None
   \<and> balance (db (run demo_config [Register alice])) 0 = Some 100
   \<and> balance (commit (db (run demo_config [Register alice]))
              (take 1 (fst (generate (db (run demo_config [Register alice])) 0 cat_request)))) 0
       = Some 100
   \<and> map tx_type (transactions (commit (db (run demo_config [Register alice]))
              (take 1 (fst (generate (db (run demo_config [Register alice])) 0 cat_request)))))
       = [BonusT]"
  by code_simp

subsection \<open>Retries\<close>

text \<open>
  Claim C5 (fallback between attempts), as amended. In the retry loop, the
  model of an attempt that follows a failed one is
  \<open>stabilityai/stable-diffusion-2-1\<close> after \<open>black-forest-labs/FLUX.1-schnell\<close>,
  \<open>runwayml/stable-diffusion-v1-5\<close> after \<open>stabilityai/stable-diffusion-2-1\<close>,
  and the same model after any other; so two consecutive attempts differ
  exactly when the earlier one used one of the first two models.
\<close>

theorem fallback_steps:
  assumes "retry_loop env job r m le [] = (b, le', m', tried)"
    and "Suc i < length tried"
  shows "tried ! Suc i =
           (if tried ! i = ''black-forest-labs/FLUX.1-schnell''
              then ''stabilityai/stable-diffusion-2-1''
            else if tried ! i = ''stabilityai/stable-diffusion-2-1''
              then ''runwayml/stable-diffusion-v1-5''
            else tried ! i)
       \<and> (tried ! Suc i \<noteq> tried ! i \<longleftrightarrow>
            tried ! i = ''black-forest-labs/FLUX.1-schnell''
            \<or> tried ! i = ''stabilityai/stable-diffusion-2-1'')"
proof -
  from retry_loop_tried [OF assms(1)] have "follows_chain tried"
    by auto
  from follows_chain_nth [OF this assms(2)] show ?thesis
    by (simp add: fallback_def)
qed

theorem fallback_steps_witness:
  "retry_loop failing_env (new_job 0 cat_request) 3 ''black-forest-labs/FLUX.1-schnell'' None []
     = (None, Some ''Service unavailable'', ''runwayml/stable-diffusion-v1-5'',
        [''black-forest-labs/FLUX.1-schnell'', ''stabilityai/stable-diffusion-2-1'',
         ''runwayml/stable-diffusion-v1-5''])
   \<and> [''black-forest-labs/FLUX.1-schnell'', ''stabilityai/stable-diffusion-2-1'',
         ''runwayml/stable-diffusion-v1-5''] ! Suc 0 = ''stabilityai/stable-diffusion-2-1''"
proof -
  let ?ms = "[''black-forest-labs/FLUX.1-schnell'', ''stabilityai/stable-diffusion-2-1'',
         ''runwayml/stable-diffusion-v1-5'']"
  have h: "retry_loop failing_env (new_job 0 cat_request) 3 ''black-forest-labs/FLUX.1-schnell'' None []
     = (None, Some ''Service unavailable'', ''runwayml/stable-diffusion-v1-5'', ?ms)"
    by code_simp
  have l: "Suc 0 < length ?ms"
    by simp
  from fallback_steps [OF h l] h show ?thesis
    by simp
qed

text \<open>
  Consecutive attempts can use the same model, against the first statement of
  C5: for a job that asks for \<open>midjourney\<close> all three attempts use
  \<open>prompthero/openjourney-v4\<close>.
\<close>

theorem same_model_counterexample:
  "attempted_models failing_env (new_job 0 cat_request)
     = [''prompthero/openjourney-v4'', ''prompthero/openjourney-v4'', ''prompthero/openjourney-v4'']"
  by code_simp

text \<open>
  Claim C6 (retry bound). With a configured provider none of whose calls
  resolves, the retry loop of the worker ends after 3 attempts, no more, and
  the job is stored with status \<open>failed\<close> and a non-empty error message.
\<close>

theorem always_failing_provider:
  assumes "hf_configured cfg"
    and "findById (jobs d) j = Some job0"
    and "\<forall>n m p q b. textToImage env n m p q \<noteq> Resolves b"
  shows "length (attempted_models env (job0\<lparr>status := Processing\<rparr>)) = 3
       \<and> (\<exists>job msg. findById (jobs (commit d (processImageGeneration cfg env d j))) j = Some job
              \<and> status job = Failed \<and> error_message job = Some msg \<and> msg \<noteq> [])"
proof -
  let ?job = "job0\<lparr>status := Processing\<rparr>"
  from retry_loop_all_fail [OF assms(3), of ?job 3 "select_model (model ?job)" None "[]"]
  have "length (attempted_models env ?job) = 3"
    by (auto simp: attempted_models_def)
  moreover
  from synthesize_all_fail [OF assms(3)] obtain msg where "synthesize env j ?job = Inl msg"
    by blast
  from worker_failure_writes [OF assms(2,1) this]
  have "\<exists>job msg. findById (jobs (commit d (processImageGeneration cfg env d j))) j = Some job
              \<and> status job = Failed \<and> error_message job = Some msg \<and> msg \<noteq> []"
    by (cases "findById (users d) (userId job0)")
       (simp_all add: commit_Cons commit_Nil findById_update)
  ultimately show ?thesis by simp
qed

theorem always_failing_provider_witness:
  "hf_configured demo_config
   \<and> length (attempted_models failing_env
               ((new_job 0 cat_request)\<lparr>status := Processing\<rparr>)) = 3
   \<and> map_option status
        (findById (jobs (commit (db (run demo_config (take 2 demo_events)))
                           (processImageGeneration demo_config failing_env
                              (db (run demo_config (take 2 demo_events))) 0))) 0) = Some Failed
   \<and> map_option error_message
        (findById (jobs (commit (db (run demo_config (take 2 demo_events)))
                           (processImageGeneration demo_config failing_env
                              (db (run demo_config (take 2 demo_events))) 0))) 0)
       = Some (Some ''Service unavailable'')"
proof -
  let ?d = "db (run demo_config (take 2 demo_events))"
  have c: "hf_configured demo_config"
    by (simp add: demo_config_def)
  have j: "findById (jobs ?d) 0 = Some (new_job 0 cat_request)"
    by code_simp
  have f: "\<forall>n m p q b. textToImage failing_env n m p q \<noteq> Resolves b"
    by (simp add: failing_env_def)
  have s: "map_option status
        (findById (jobs (commit ?d (processImageGeneration demo_config failing_env ?d 0))) 0)
       = Some Failed"
    by code_simp
  have m: "map_option error_message
        (findById (jobs (commit ?d (processImageGeneration demo_config failing_env ?d 0))) 0)
       = Some (Some ''Service unavailable'')"
    by code_simp
  from always_failing_provider [OF c j f] show ?thesis
    by (simp only: c s m simp_thms)
qed

subsection \<open>Job outcome and refunds\<close>

text \<open>
  Claim C7 (monotonic status). At every moment of every run of the server,
  the status values saved so far for a job, in the order of the writes, are a
  prefix of \<open>[pending, processing, completed]\<close> or of
  \<open>[pending, processing, failed]\<close>.
\<close>

theorem status_monotonic:
  assumes "prefix ws (oplog (run cfg evs))"
  shows "prefix (status_writes j ws) [Pending, Processing, Completed]
       \<or> prefix (status_writes j ws) [Pending, Processing, Failed]"
proof -
  from reachable_invariant [of cfg evs] have "ok_view j (job_view (run cfg evs) j)"
    by simp
  then have "status_writes j (oplog (run cfg evs)) \<in>
               {[], [Pending], [Pending, Processing, Completed], [Pending, Processing, Failed]}"
    by (auto simp: ok_view_def job_view_def)
  then have "prefix (status_writes j (oplog (run cfg evs))) [Pending, Processing, Completed]
           \<or> prefix (status_writes j (oplog (run cfg evs))) [Pending, Processing, Failed]"
    by auto
  with status_writes_prefix [OF assms, of j] show ?thesis
    by (meson prefix_order.trans)
qed

theorem status_monotonic_witness:
  "prefix (take 6 (oplog (run demo_config demo_events))) (oplog (run demo_config demo_events))
   \<and> status_writes 0 (take 6 (oplog (run demo_config demo_events))) = [Pending, Processing]
   \<and> status_writes 0 (oplog (run demo_config demo_events)) = [Pending, Processing, Failed]
   \<and> status_writes 1 (oplog (run demo_config demo_events)) = [Pending, Processing, Completed]
   \<and> (prefix (status_writes 0 (take 6 (oplog (run demo_config demo_events))))
          [Pending, Processing, Completed]
       \<or> prefix (status_writes 0 (take 6 (oplog (run demo_config demo_events))))
          [Pending, Processing, Failed])"
proof -
  have h: "prefix (take 6 (oplog (run demo_config demo_events))) (oplog (run demo_config demo_events))"
    by (rule take_is_prefix)
  have "status_writes 0 (take 6 (oplog (run demo_config demo_events))) = [Pending, Processing]"
    by code_simp
  moreover have "status_writes 0 (oplog (run demo_config demo_events)) = [Pending, Processing, Failed]"
    by code_simp
  moreover have "status_writes 1 (oplog (run demo_config demo_events)) = [Pending, Processing, Completed]"
    by code_simp
  ultimately show ?thesis
    using h status_monotonic [OF h, of 0] by simp
qed

text \<open>
  Claim C2 (refund symmetry). In every state the server reaches, a job whose
  status is \<open>failed\<close> has exactly one \<open>refund\<close> entry in the ledger
  carrying its id, with \<open>credits = 1\<close> and the id of the owner, and a job
  whose status is \<open>completed\<close> has none. When the worker of a submitted job
  runs and leaves the job \<open>failed\<close>, the balance of the owner grows by 1.
\<close>

theorem refund_symmetry:
  assumes "findById (jobs (db (run cfg evs))) j = Some job"
  shows "(status job = Failed \<longrightarrow>
            (\<exists>t. refunds_for (db (run cfg evs)) j = [t] \<and> tx_type t = RefundT
               \<and> tx_credits t = 1 \<and> tx_userId t = userId job \<and> meta_jobId t = Some j))
       \<and> (status job = Completed \<longrightarrow> refunds_for (db (run cfg evs)) j = [])
       \<and> (j \<in> set (started (run cfg evs))
            \<and> map_option status
                 (findById (jobs (db (exec cfg (run cfg evs) (Work j env)))) j) = Some Failed \<longrightarrow>
            (\<exists>c. balance (db (run cfg evs)) (userId job) = Some c
               \<and> balance (db (exec cfg (run cfg evs) (Work j env))) (userId job) = Some (c + 1)))"
proof -
  let ?s = "run cfg evs"
  from reachable_invariant [of cfg evs]
  have wf: "wf_store (db ?s)" and ok: "ok_view j (job_view ?s j)"
    by simp_all
  from ok assms have "status job = Failed \<longrightarrow> refunds_for (db ?s) j = [refund_entry (userId job) j]"
    by (auto simp: ok_view_def job_view_def)
  then have failed: "status job = Failed \<longrightarrow>
            (\<exists>t. refunds_for (db ?s) j = [t] \<and> tx_type t = RefundT
               \<and> tx_credits t = 1 \<and> tx_userId t = userId job \<and> meta_jobId t = Some j)"
    by simp
  from ok assms have completed: "status job = Completed \<longrightarrow> refunds_for (db ?s) j = []"
    by (auto simp: ok_view_def job_view_def)
  from wf assms have "findById (users (db ?s)) (userId job) \<noteq> None"
    unfolding wf_store_def by blast
  then obtain u where u: "findById (users (db ?s)) (userId job) = Some u"
    by auto
  have "balance (db (exec cfg ?s (Work j env))) (userId job) = Some (credits u + 1)"
    if "j \<in> set (started ?s)"
      and "map_option status (findById (jobs (db (exec cfg ?s (Work j env)))) j) = Some Failed"
    using work_failed_balance [OF assms u that] .
  moreover from u have "balance (db ?s) (userId job) = Some (credits u)"
    by (simp add: balance_def)
  ultimately show ?thesis
    using failed completed by blast
qed

theorem refund_symmetry_witness:
  "map_option status (findById (jobs (db (run demo_config demo_events))) 0) = Some Failed
   \<and> refunds_for (db (run demo_config demo_events)) 0 = [refund_entry 0 0]
   \<and> map_option status (findById (jobs (db (run demo_config demo_events))) 1) = Some Completed
   \<and> refunds_for (db (run demo_config demo_events)) 1 = []
   \<and> 0 \<in> set (started (run demo_config (take 2 demo_events)))
   \<and> map_option status
        (findById (jobs (db (exec demo_config (run demo_config (take 2 demo_events))
                               (Work 0 failing_env)))) 0) = Some Failed
   \<and> balance (db (run demo_config (take 2 demo_events))) 0 = Some 99
   \<and> balance (db (exec demo_config (run demo_config (take 2 demo_events)) (Work 0 failing_env))) 0
       = Some 100"
proof -
  let ?s = "run demo_config demo_events"
  let ?s2 = "run demo_config (take 2 demo_events)"
  let ?job = "\<lparr>userId = 0, prompt = ''a cat'', negativePrompt = None,
              model = ''midjourney'', param_width = None,
              param_height = None, status = Pending, result = None,
              error_message = None\<rparr>"
  let ?res = "\<lparr>images = [\<lparr>url = Hosted 1 1000, width = 1024, height = 1024,
                            filename = Some (1, 1000)\<rparr>],
               timeTaken = 2000, result_model = Some ''prompthero/openjourney-v4'',
               result_note = None\<rparr>"
  have j0: "findById (jobs (db ?s)) 0
              = Some (?job\<lparr>status := Failed, error_message := Some ''Service unavailable''\<rparr>)"
    by code_simp
  have j1: "findById (jobs (db ?s)) 1 = Some (?job\<lparr>status := Completed, result := Some ?res\<rparr>)"
    by code_simp
  have j2: "findById (jobs (db ?s2)) 0 = Some ?job"
    by code_simp
  have st: "0 \<in> set (started ?s2)"
    by code_simp
  have f: "map_option status
             (findById (jobs (db (exec demo_config ?s2 (Work 0 failing_env)))) 0) = Some Failed"
    by code_simp
  have b: "balance (db ?s2) 0 = Some 99"
    by code_simp
  have r0: "refunds_for (db ?s) 0 = [refund_entry 0 0]"
    by code_simp
  have r1: "refunds_for (db ?s) 1 = []"
    by code_simp
  have b': "balance (db (exec demo_config ?s2 (Work 0 failing_env))) 0 = Some 100"
    by code_simp
  from refund_symmetry [OF j0, of failing_env] refund_symmetry [OF j1, of failing_env]
    refund_symmetry [OF j2, of failing_env]
  show ?thesis
    by (simp only: j0 j1 r0 r1 st f b b' option.map simp_thms)
       (simp add: j0 j1)
qed

text \<open>
  Claim C10 (failure without owner). When generation fails for a job whose
  owner is not in the store, the job is still saved as \<open>failed\<close> with its
  error message, and neither the users nor the ledger change.
\<close>

theorem refund_skipped_without_user:
  assumes "findById (jobs d) j = Some job0"
    and "findById (users d) (userId job0) = None"
    and "hf_configured cfg"
    and "synthesize env j (job0\<lparr>status := Processing\<rparr>) = Inl msg"
  shows "(\<exists>job m. findById (jobs (commit d (processImageGeneration cfg env d j))) j = Some job
            \<and> status job = Failed \<and> error_message job = Some m \<and> m \<noteq> []
            \<and> (msg \<noteq> [] \<longrightarrow> m = msg))
       \<and> users (commit d (processImageGeneration cfg env d j)) = users d
       \<and> transactions (commit d (processImageGeneration cfg env d j)) = transactions d"
  using worker_failure_writes [OF assms(1,3,4)] assms(2)
  by (simp add: commit_Cons commit_Nil findById_update)

theorem refund_skipped_without_user_witness:
  "findById (users orphan_store) 3 = None
   \<and> hf_configured demo_config
   \<and> synthesize failing_env 7
        \<lparr>userId = 3, prompt = ''a dog'', negativePrompt = None, model = ''dalle-3'',
         param_width = None, param_height = None, status = Processing, result = None,
         error_message = None\<rparr> = Inl ''Service unavailable''
   \<and> users (commit orphan_store (processImageGeneration demo_config failing_env orphan_store 7)) = []
   \<and> transactions (commit orphan_store (processImageGeneration demo_config failing_env orphan_store 7))
        = []
   \<and> map_option status
        (findById (jobs (commit orphan_store
                          (processImageGeneration demo_config failing_env orphan_store 7))) 7)
       = Some Failed"
proof -
  let ?job = "\<lparr>userId = 3, prompt = ''a dog'', negativePrompt = None, model = ''dalle-3'',
         param_width = None, param_height = None, status = Pending, result = None,
         error_message = None\<rparr>"
  have j: "findById (jobs orphan_store) 7 = Some ?job"
    by code_simp
  have u: "findById (users orphan_store) (userId ?job) = None"
    by code_simp
  have c: "hf_configured demo_config"
    by (simp add: demo_config_def)
  have y: "synthesize failing_env 7 (?job\<lparr>status := Processing\<rparr>) = Inl ''Service unavailable''"
    by code_simp
  have o: "users orphan_store = []" "transactions orphan_store = []"
    by (simp_all add: orphan_store_def)
  from refund_skipped_without_user [OF j u c y] u c y o show ?thesis
    by auto
qed

end
